theory Spec2Isabelle
  imports Complex_Main
begin

section \<open>JavaScript values\<close>

text \<open>
  The script works on what \<^verbatim>\<open>JSON.parse\<close> returns and on what a property read of
  such a value returns. A number is an IEEE double; the program only looks at its
  \<^verbatim>\<open>typeof\<close> and at its truthiness, so a double is kept as its rational value
  (both zeros are \<open>Finite 0\<close>), an infinity (\<^verbatim>\<open>JSON.parse("1e999")\<close>) or NaN.
\<close>

datatype number = NaN | Infinity bool | Finite rat

text \<open>
  An object is the list of its own properties, read with \<open>map_of\<close>.
  \<open>JUndefined\<close> is what a read of a missing property gives.
\<close>

datatype jsval =
    JUndefined
  | JNull
  | JBool bool
  | JNum number
  | JStr string
  | JArr "jsval list"
  | JObj "(string \<times> jsval) list"

datatype jstype = TUndefined | TObject | TBoolean | TNumber | TString

text \<open>
  An error object: \<open>SyntaxError\<close> and \<open>Error\<close> carry their message. \<open>TypeError b p\<close>
  is the error of reading property \<open>p\<close> of \<open>b\<close>, where \<open>b\<close> is \<^verbatim>\<open>null\<close> or
  \<^verbatim>\<open>undefined\<close>; the text of its message is the engine's.
\<close>

datatype error = SyntaxError string | TypeError string string | Error string

fun typeof :: "jsval \<Rightarrow> jstype" where
  "typeof JUndefined = TUndefined"
| "typeof JNull = TObject"
| "typeof (JBool b) = TBoolean"
| "typeof (JNum n) = TNumber"
| "typeof (JStr s) = TString"
| "typeof (JArr xs) = TObject"
| "typeof (JObj kvs) = TObject"

text \<open>\<open>truthy v\<close> is the value of \<^verbatim>\<open>!!v\<close>.\<close>

fun truthy :: "jsval \<Rightarrow> bool" where
  "truthy JUndefined = False"
| "truthy JNull = False"
| "truthy (JBool b) = b"
| "truthy (JNum NaN) = False"
| "truthy (JNum (Infinity s)) = True"
| "truthy (JNum (Finite r)) = (r \<noteq> 0)"
| "truthy (JStr s) = (s \<noteq> [])"
| "truthy (JArr xs) = True"
| "truthy (JObj kvs) = True"

fun isArray :: "jsval \<Rightarrow> bool" where
  "isArray (JArr xs) = True"
| "isArray v = False"

text \<open>
  \<open>getProp v p\<close> is the read \<^verbatim>\<open>v.p\<close>, for the property names the script reads:
  \<^verbatim>\<open>id type on do value betType profitType label blocks isDefault\<close>. None of them is a
  property of a boolean, a number, a string or an array, nor inherited by an object, so
  the read gives \<^verbatim>\<open>undefined\<close> unless \<open>v\<close> is an object that has the property itself.
  Reading a property of \<^verbatim>\<open>null\<close> or \<^verbatim>\<open>undefined\<close> throws a TypeError.
\<close>

fun getProp :: "jsval \<Rightarrow> string \<Rightarrow> error + jsval" where
  "getProp JUndefined p = Inl (TypeError ''undefined'' p)"
| "getProp JNull p = Inl (TypeError ''null'' p)"
| "getProp (JObj kvs) p = (case map_of kvs p of None \<Rightarrow> Inr JUndefined | Some v \<Rightarrow> Inr v)"
| "getProp v p = Inr JUndefined"

text \<open>
  \<open>array_includes xs v\<close> is \<^verbatim>\<open>xs.includes(v)\<close> for an array \<open>xs\<close> of strings: only a string
  is the same value as a string.
\<close>

fun array_includes :: "string list \<Rightarrow> jsval \<Rightarrow> bool" where
  "array_includes xs (JStr s) = (s \<in> set xs)"
| "array_includes xs v = False"

text \<open>Sequencing of evaluations that may throw: the first error thrown ends the evaluation.\<close>

definition bindE :: "error + 'a \<Rightarrow> ('a \<Rightarrow> error + 'b) \<Rightarrow> error + 'b" where
  "bindE m f = (case m of Inl e \<Rightarrow> Inl e | Inr x \<Rightarrow> f x)"

text \<open>
  \<open>every f xs\<close> is \<^verbatim>\<open>xs.every(f)\<close>: it stops with \<^verbatim>\<open>false\<close> at the first element
  that fails and lets an error thrown by \<open>f\<close> through.
\<close>

fun every :: "('a \<Rightarrow> error + bool) \<Rightarrow> 'a list \<Rightarrow> error + bool" where
  "every f [] = Inr True"
| "every f (x # xs) = bindE (f x) (\<lambda>b. if b then every f xs else Inr False)"

section \<open>StrategyValidator\<close>

definition validConditionTypes :: "string list" where
  "validConditionTypes =
    [''every'', ''everyStreakOf'', ''streakGreaterThan'', ''streakLowerThan'',
     ''firstStreakOf'', ''greaterThan'', ''greaterThanOrEqualTo'', ''lessThan'',
     ''lessThanOrEqualTo'']"

definition validBetTypes :: "string list" where
  "validBetTypes = [''bet'', ''win'', ''lose'']"

definition validProfitTypes :: "string list" where
  "validProfitTypes = [''profit'', ''loss'', ''balance'']"

definition validActionTypes :: "string list" where
  "validActionTypes =
    [''setAmount'', ''setWinChance'', ''increaseWinChanceBy'', ''decreaseWinChanceBy'',
     ''increaseByPercentage'', ''decreaseByPercentage'', ''addToAmount'',
     ''subtractFromAmount'', ''addToWinChance'', ''subtractFromWinChance'',
     ''switchOverUnder'', ''resetAmount'', ''resetWinChance'', ''stop'']"

definition validateCondition :: "jsval \<Rightarrow> error + bool" where
  "validateCondition condition =
    bindE (getProp condition ''type'') (\<lambda>ty.
    if \<not> truthy ty then Inr False else
    bindE (getProp condition ''value'') (\<lambda>val.
    if val = JUndefined then Inr False else
    bindE (getProp condition ''betType'') (\<lambda>betType.
    if \<not> truthy betType then Inr False else
    bindE (getProp condition ''profitType'') (\<lambda>profitType.
    if \<not> truthy profitType then Inr False
    else if \<not> array_includes validConditionTypes ty then Inr False
    else if \<not> array_includes validBetTypes betType then Inr False
    else if \<not> array_includes validProfitTypes profitType then Inr False
    else if typeof val \<noteq> TNumber then Inr False
    else Inr True))))"

definition validateAction :: "jsval \<Rightarrow> error + bool" where
  "validateAction action =
    bindE (getProp action ''type'') (\<lambda>ty.
    if \<not> truthy ty then Inr False else
    bindE (getProp action ''value'') (\<lambda>val.
    if val = JUndefined then Inr False
    else if \<not> array_includes validActionTypes ty then Inr False
    else if typeof val \<noteq> TNumber then Inr False
    else Inr True))"

text \<open>
  \<^verbatim>\<open>a && b\<close> on the results of the two validators: the action is validated only when
  the condition passed.
\<close>

definition validateBlock :: "jsval \<Rightarrow> error + bool" where
  "validateBlock block =
    bindE (getProp block ''id'') (\<lambda>bid.
    if \<not> truthy bid then Inr False else
    bindE (getProp block ''type'') (\<lambda>ty.
    if \<not> truthy ty then Inr False else
    bindE (getProp block ''on'') (\<lambda>on.
    if \<not> truthy on then Inr False else
    bindE (getProp block ''do'') (\<lambda>do.
    if \<not> truthy do then Inr False
    else if \<not> array_includes [''bets'', ''profit''] ty then Inr False
    else bindE (validateCondition on) (\<lambda>c.
         if c then validateAction do else Inr False)))))"

section \<open>StrategyManager\<close>

definition validateStrategy :: "jsval \<Rightarrow> error + bool" where
  "validateStrategy strategy =
    (if \<not> truthy strategy \<or> typeof strategy \<noteq> TObject then Inr False else
     bindE (getProp strategy ''label'') (\<lambda>label.
     if \<not> truthy label then Inr False else
     bindE (getProp strategy ''blocks'') (\<lambda>blocks.
     if \<not> isArray blocks then Inr False else
     bindE (getProp strategy ''isDefault'') (\<lambda>isDefault.
     if typeof isDefault \<noteq> TBoolean then Inr False
     else (case blocks of JArr bs \<Rightarrow> every validateBlock bs | _ \<Rightarrow> Inr False)))))"

text \<open>
  What the script takes from its host: \<^verbatim>\<open>JSON.parse\<close> (which throws on a text
  that is not JSON), \<^verbatim>\<open>JSON.stringify\<close>, the two functions of
  \<^verbatim>\<open>StrategyConverter\<close> (the script calls them and does not define them), the text
  the engine gives the message of a TypeError, and the date stamp
  \<^verbatim>\<open>new Date().toISOString().split('T')[0]\<close>.
\<close>

record env =
  parse :: "string \<Rightarrow> error + jsval"
  stringify :: "jsval \<Rightarrow> string"
  toShorthand :: "jsval \<Rightarrow> error + jsval"
  fromShorthand :: "jsval \<Rightarrow> error + jsval"
  typeErrorMessage :: "string \<Rightarrow> string \<Rightarrow> string"
  isoDate :: string

text \<open>
  What the script changes: \<^verbatim>\<open>localStorage\<close>, a map from keys to texts taken to
  have room for every write, and the downloads it has triggered, each a file name and
  the content of the blob.
\<close>

record world =
  storage :: "string \<Rightarrow> string option"
  downloads :: "(string \<times> string) list"

definition STRATEGY_KEY :: string where
  "STRATEGY_KEY = ''strategies_saved''"

text \<open>\<^verbatim>\<open>localStorage.getItem\<close>: \<open>None\<close> is the \<^verbatim>\<open>null\<close> of an absent key.\<close>

definition getItem :: "world \<Rightarrow> string \<Rightarrow> string option" where
  "getItem w k = storage w k"

definition setItem :: "world \<Rightarrow> string \<Rightarrow> string \<Rightarrow> world" where
  "setItem w k v = w\<lparr>storage := (storage w)(k \<mapsto> v)\<rparr>"

text \<open>The anchor element that is created, given the blob's URL and a file name, and clicked.\<close>

definition download :: "world \<Rightarrow> string \<Rightarrow> string \<Rightarrow> world" where
  "download w name content = w\<lparr>downloads := downloads w @ [(name, content)]\<rparr>"

text \<open>\<^verbatim>\<open>error.message\<close>.\<close>

fun message :: "env \<Rightarrow> error \<Rightarrow> string" where
  "message eng (SyntaxError m) = m"
| "message eng (TypeError b p) = typeErrorMessage eng b p"
| "message eng (Error m) = m"

text \<open>
  A parameter \<^verbatim>\<open>format = 'original'\<close>: \<open>None\<close> is the call that leaves the
  argument out.
\<close>

definition formatOrDefault :: "string option \<Rightarrow> string" where
  "formatOrDefault fmt = (case fmt of None \<Rightarrow> ''original'' | Some f \<Rightarrow> f)"

text \<open>
  The test \<^verbatim>\<open>Array.isArray(p) && p.every(this.validateStrategy)\<close>, whose negation
  guards the throw in each of the three operations.
\<close>

definition allStrategiesValid :: "jsval \<Rightarrow> error + bool" where
  "allStrategiesValid parsed =
    (case parsed of JArr xs \<Rightarrow> every validateStrategy xs | _ \<Rightarrow> Inr False)"

text \<open>
  \<open>exportStrategies\<close> returns what the call returns (\<open>Inr\<close>) or throws (\<open>Inl\<close>; the
  \<^verbatim>\<open>catch\<close> logs the error and throws it again), and the world it leaves.
\<close>

definition exportStrategies :: "env \<Rightarrow> string option \<Rightarrow> world \<Rightarrow> (error + jsval) \<times> world" where
  "exportStrategies eng fmt w =
    (let format = formatOrDefault fmt in
     case getItem w STRATEGY_KEY of
       None \<Rightarrow> (Inr JNull, w)
     | Some strategies \<Rightarrow>
         if strategies = [] then (Inr JNull, w)
         else
           (case bindE (parse eng strategies) (\<lambda>parsedStrategies.
                 bindE (allStrategiesValid parsedStrategies) (\<lambda>ok.
                 if \<not> ok then Inl (Error ''Invalid strategy format detected'')
                 else if format = ''shorthand''
                   then bindE (toShorthand eng parsedStrategies) (\<lambda>sh. Inr (stringify eng sh))
                   else Inr strategies)) of
              Inl e \<Rightarrow> (Inl e, w)
            | Inr exportData \<Rightarrow>
                (Inr (JStr exportData),
                 download w (''strategies_'' @ format @ ''_'' @ isoDate eng @ ''.json'') exportData)))"

text \<open>
  A file of the input element: the text \<^verbatim>\<open>readAsText\<close> hands to \<^verbatim>\<open>onload\<close>,
  or a read that ends in \<^verbatim>\<open>onerror\<close>.
\<close>

datatype inputFile = Readable string | Unreadable

text \<open>
  \<open>importStrategies\<close> gives how the promise settles, rejected (\<open>Inl\<close>) or resolved
  (\<open>Inr\<close>), and the world after the handler has run on the world \<open>w\<close> it found.
\<close>

definition importStrategies ::
    "env \<Rightarrow> inputFile list \<Rightarrow> string option \<Rightarrow> world \<Rightarrow> (error + jsval) \<times> world" where
  "importStrategies eng files fmt w =
    (let format = formatOrDefault fmt in
     case files of
       [] \<Rightarrow> (Inl (Error ''No file selected''), w)
     | file # _ \<Rightarrow>
         (case file of
            Unreadable \<Rightarrow> (Inl (Error ''Failed to read file''), w)
          | Readable content \<Rightarrow>
              (case bindE (parse eng content) (\<lambda>parsed.
                    bindE (if format = ''shorthand'' then fromShorthand eng parsed
                           else Inr parsed) (\<lambda>parsedContent.
                    bindE (allStrategiesValid parsedContent) (\<lambda>ok.
                    if \<not> ok then Inl (Error ''Invalid strategy format'')
                    else Inr parsedContent))) of
                 Inl e \<Rightarrow> (Inl (Error (''Invalid strategy file: '' @ message eng e)), w)
               | Inr parsedContent \<Rightarrow>
                   (Inr parsedContent,
                    setItem w STRATEGY_KEY (stringify eng parsedContent)))))"

definition getStrategies :: "env \<Rightarrow> string option \<Rightarrow> world \<Rightarrow> (error + jsval) \<times> world" where
  "getStrategies eng fmt w =
    (let format = formatOrDefault fmt in
     case getItem w STRATEGY_KEY of
       None \<Rightarrow> (Inr JNull, w)
     | Some strategies \<Rightarrow>
         if strategies = [] then (Inr JNull, w)
         else
           (bindE (parse eng strategies) (\<lambda>parsedStrategies.
            bindE (allStrategiesValid parsedStrategies) (\<lambda>ok.
            if \<not> ok then
              Inl (Error (''Invalid strategy format detected in localStorage, ''
                          @ ''check you are on the right website''))
            else if format = ''shorthand'' then toShorthand eng parsedStrategies
            else Inr parsedStrategies)), w))"

section \<open>The script\<close>

text \<open>
  Evaluating the file defines the two classes and then runs its one statement,
  \<^verbatim>\<open>StrategyManager.exportStrategies();\<close>, whose value is dropped and whose error,
  if it throws, is the script's.
\<close>

definition script :: "env \<Rightarrow> world \<Rightarrow> (error + unit) \<times> world" where
  "script eng w =
    (case exportStrategies eng None w of
       (Inl e, w') \<Rightarrow> (Inl e, w')
     | (Inr v, w') \<Rightarrow> (Inr (), w'))"

section \<open>Example values\<close>

text \<open>The strategy \<^verbatim>\<open>{label: "x", isDefault: true, blocks: []}\<close>.\<close>

definition strategyX :: jsval where
  "strategyX = JObj [(''label'', JStr ''x''), (''isDefault'', JBool True), (''blocks'', JArr [])]"

definition conditionOk :: jsval where
  "conditionOk =
    JObj [(''type'', JStr ''every''), (''value'', JNum (Finite 1)),
          (''betType'', JStr ''win''), (''profitType'', JStr ''profit'')]"

definition actionZero :: jsval where
  "actionZero = JObj [(''type'', JStr ''stop''), (''value'', JNum (Finite 0))]"

definition actionNoValue :: jsval where
  "actionNoValue = JObj [(''type'', JStr ''stop'')]"

definition blockWithId :: "jsval \<Rightarrow> jsval" where
  "blockWithId i =
    JObj [(''id'', i), (''type'', JStr ''bets''), (''on'', conditionOk), (''do'', actionZero)]"

definition strategyNullBlock :: jsval where
  "strategyNullBlock =
    JObj [(''label'', JStr ''x''), (''isDefault'', JBool True), (''blocks'', JArr [JNull])]"

definition compactText :: string where
  \<open>compactText = ''[{"label":"x","isDefault":true,"blocks":[]}]''\<close>

definition spacedText :: string where
  \<open>spacedText = ''[ {"label": "x", "isDefault": true, "blocks": []} ]''\<close>

definition nullBlockText :: string where
  \<open>nullBlockText = ''[{"label":"x","isDefault":true,"blocks":[null]}]''\<close>

text \<open>
  A host for the examples: a parser that knows the texts above, a serializer that writes
  the one strategy list compactly, a codec that leaves a list as it is and refuses
  anything else.
\<close>

definition exampleEnv :: env where
  "exampleEnv =
    \<lparr>parse = (\<lambda>s. if s = compactText \<or> s = spacedText then Inr (JArr [strategyX])
                  else if s = nullBlockText then Inr (JArr [strategyNullBlock])
                  else if s = ''{}'' then Inr (JObj [])
                  else if s = ''7'' then Inr (JNum (Finite 7))
                  else Inl (SyntaxError ''Unexpected end of JSON input'')),
     stringify = (\<lambda>v. if v = JArr [strategyX] then compactText else ''null''),
     toShorthand = Inr,
     fromShorthand = (\<lambda>v. if isArray v then Inr v else Inl (Error ''Not a shorthand list'')),
     typeErrorMessage =
       (\<lambda>b p. ''Cannot read properties of '' @ b @ '' (reading '' @ p @ '')''),
     isoDate = ''2024-05-17''\<rparr>"

definition emptyWorld :: world where
  "emptyWorld = \<lparr>storage = (\<lambda>k. None), downloads = []\<rparr>"

definition storedWorld :: world where
  "storedWorld =
    \<lparr>storage = (\<lambda>k. if k = ''strategies_saved'' then Some spacedText
                      else if k = ''theme'' then Some ''dark'' else None),
     downloads = []\<rparr>"

text \<open>
  A second world with the same text under the key, another theme, one more key and a
  download already made.
\<close>

definition lightWorld :: world where
  "lightWorld =
    \<lparr>storage = (\<lambda>k. if k = ''strategies_saved'' then Some spacedText
                      else if k = ''theme'' then Some ''light''
                      else if k = ''volume'' then Some ''3'' else None),
     downloads = [(''notes.txt'', ''hello'')]\<rparr>"

section \<open>Auxiliary facts\<close>

lemma bindE_Inl [simp]: "bindE (Inl e) f = Inl e"
  by (simp add: bindE_def)

lemma bindE_Inr [simp]: "bindE (Inr x) f = f x"
  by (simp add: bindE_def)

lemma array_includes_iff: "array_includes xs v \<longleftrightarrow> (\<exists>s. v = JStr s \<and> s \<in> set xs)"
  by (cases v) simp_all

lemma every_True_iff: "every f xs = Inr True \<longleftrightarrow> (\<forall>x\<in>set xs. f x = Inr True)"
proof (induction xs)
  case Nil
  show ?case by simp
next
  case (Cons x xs)
  show ?case
  proof (cases "f x")
    case (Inl e)
    then show ?thesis by simp
  next
    case (Inr b)
    with Cons.IH show ?thesis by (cases b) simp_all
  qed
qed

text \<open>
  A property read either throws for every name (the value is \<^verbatim>\<open>null\<close> or
  \<^verbatim>\<open>undefined\<close>) or returns for every name.
\<close>

lemma getProp_cases:
  obtains (nullish) b where "v = JUndefined \<or> v = JNull" "\<And>p. getProp v p = Inl (TypeError b p)"
  | (plain) g where "v \<noteq> JUndefined" "v \<noteq> JNull" "\<And>p. getProp v p = Inr (g p)"
proof (cases v)
  case JUndefined
  then show ?thesis using nullish by simp
next
  case JNull
  then show ?thesis using nullish by simp
next
  case (JObj kvs)
  then have "\<And>p. getProp v p = Inr (case map_of kvs p of None \<Rightarrow> JUndefined | Some x \<Rightarrow> x)"
    by (simp split: option.split)
  with JObj show ?thesis
    using plain[of "\<lambda>p. case map_of kvs p of None \<Rightarrow> JUndefined | Some x \<Rightarrow> x"] by simp
next
  case (JBool b)
  then show ?thesis using plain[of "\<lambda>_. JUndefined"] by simp
next
  case (JNum n)
  then show ?thesis using plain[of "\<lambda>_. JUndefined"] by simp
next
  case (JStr s)
  then show ?thesis using plain[of "\<lambda>_. JUndefined"] by simp
next
  case (JArr xs)
  then show ?thesis using plain[of "\<lambda>_. JUndefined"] by simp
qed

lemma validActionTypes_truthy: "s \<in> set validActionTypes \<Longrightarrow> s \<noteq> []"
  by (auto simp: validActionTypes_def)

lemma object_truthy: "typeof s = TObject \<Longrightarrow> s \<noteq> JNull \<Longrightarrow> truthy s"
  by (cases s) simp_all

lemma isArray_iff: "isArray v \<longleftrightarrow> (\<exists>xs. v = JArr xs)"
  by (cases v) simp_all

lemma typeof_boolean_iff: "typeof v = TBoolean \<longleftrightarrow> (\<exists>d. v = JBool d)"
  by (cases v) simp_all

lemma validateStrategy_plain:
  assumes "truthy s" "typeof s = TObject" "\<And>p. getProp s p = Inr (g p)"
  shows "validateStrategy s = Inr True \<longleftrightarrow>
    truthy (g ''label'') \<and> (\<exists>d. g ''isDefault'' = JBool d) \<and>
    (\<exists>bs. g ''blocks'' = JArr bs \<and> (\<forall>b\<in>set bs. validateBlock b = Inr True))"
  using assms
  by (auto simp: validateStrategy_def isArray_iff typeof_boolean_iff every_True_iff)

lemma allStrategiesValid_True:
  "allStrategiesValid (JArr xs) = Inr True \<longleftrightarrow> (\<forall>s\<in>set xs. validateStrategy s = Inr True)"
  by (simp add: allStrategiesValid_def every_True_iff)

lemma validateStrategy_strategyX: "validateStrategy strategyX = Inr True"
  by (simp add: validateStrategy_def strategyX_def)

lemma validateStrategy_strategyNullBlock:
  "validateStrategy strategyNullBlock = Inl (TypeError ''null'' ''id'')"
  by (simp add: validateStrategy_def validateBlock_def strategyNullBlock_def)

lemma texts_distinct:
  "compactText \<noteq> []" "spacedText \<noteq> []" "nullBlockText \<noteq> []"
  "compactText \<noteq> spacedText" "nullBlockText \<noteq> compactText" "nullBlockText \<noteq> spacedText"
  "''{}'' \<noteq> compactText" "''{}'' \<noteq> spacedText" "''{}'' \<noteq> nullBlockText"
  "''7'' \<noteq> compactText" "''7'' \<noteq> spacedText" "''7'' \<noteq> nullBlockText"
  "''{'' \<noteq> compactText" "''{'' \<noteq> spacedText" "''{'' \<noteq> nullBlockText"
  by (simp_all add: compactText_def spacedText_def nullBlockText_def)

lemma exportStrategies_storedWorld:
  "exportStrategies exampleEnv (Some ''original'') storedWorld =
     (Inr (JStr spacedText),
      storedWorld\<lparr>downloads := [(''strategies_original_2024-05-17.json'', spacedText)]\<rparr>)"
  by (simp add: exportStrategies_def formatOrDefault_def getItem_def STRATEGY_KEY_def
      storedWorld_def exampleEnv_def texts_distinct allStrategiesValid_def
      validateStrategy_strategyX download_def)

section \<open>The validator\<close>

text \<open>
  Claim C1. \<open>validateStrategy s\<close> returns \<^verbatim>\<open>true\<close> exactly when \<open>s\<close> is an object
  other than \<^verbatim>\<open>null\<close>, its \<^verbatim>\<open>label\<close> is truthy, its \<^verbatim>\<open>isDefault\<close> is a
  boolean, its \<^verbatim>\<open>blocks\<close> is an array and every element of that array passes
  \<open>validateBlock\<close>. In particular a strategy with a truthy label, a boolean
  \<^verbatim>\<open>isDefault\<close> and an empty array of blocks validates.
\<close>

theorem validateStrategy_iff:
  "(validateStrategy s = Inr True \<longleftrightarrow>
      s \<noteq> JNull \<and> typeof s = TObject \<and>
      (\<exists>label d bs.
          getProp s ''label'' = Inr label \<and> truthy label \<and>
          getProp s ''isDefault'' = Inr (JBool d) \<and>
          getProp s ''blocks'' = Inr (JArr bs) \<and>
          (\<forall>b\<in>set bs. validateBlock b = Inr True)))
   \<and> (s \<noteq> JNull \<and> typeof s = TObject \<and>
        getProp s ''label'' = Inr l \<and> truthy l \<and>
        getProp s ''isDefault'' = Inr (JBool c) \<and>
        getProp s ''blocks'' = Inr (JArr []) \<longrightarrow> validateStrategy s = Inr True)"
proof -
  have main: "validateStrategy s = Inr True \<longleftrightarrow>
      s \<noteq> JNull \<and> typeof s = TObject \<and>
      (\<exists>label d bs.
          getProp s ''label'' = Inr label \<and> truthy label \<and>
          getProp s ''isDefault'' = Inr (JBool d) \<and>
          getProp s ''blocks'' = Inr (JArr bs) \<and>
          (\<forall>b\<in>set bs. validateBlock b = Inr True))"
  proof (cases s rule: getProp_cases)
    case (nullish b)
    then show ?thesis by (auto simp: validateStrategy_def)
  next
    case (plain g)
    show ?thesis
    proof (cases "typeof s = TObject")
      case True
      with plain have "truthy s" by (simp add: object_truthy)
      from validateStrategy_plain[OF this True plain(3)] True plain show ?thesis
        by simp
    next
      case False
      then show ?thesis by (simp add: validateStrategy_def)
    qed
  qed
  have empty: "validateStrategy s = Inr True"
    if "s \<noteq> JNull \<and> typeof s = TObject \<and>
        getProp s ''label'' = Inr l \<and> truthy l \<and>
        getProp s ''isDefault'' = Inr (JBool c) \<and>
        getProp s ''blocks'' = Inr (JArr [])"
    using that unfolding main by simp
  from main empty show ?thesis by blast
qed

theorem validateStrategy_iff_witness:
  "strategyX \<noteq> JNull \<and> typeof strategyX = TObject \<and> validateStrategy strategyX = Inr True"
proof -
  have h: "strategyX \<noteq> JNull \<and> typeof strategyX = TObject \<and>
        getProp strategyX ''label'' = Inr (JStr ''x'') \<and> truthy (JStr ''x'') \<and>
        getProp strategyX ''isDefault'' = Inr (JBool True) \<and>
        getProp strategyX ''blocks'' = Inr (JArr [])"
    by (simp add: strategyX_def)
  have "validateStrategy strategyX = Inr True"
    using h by (rule validateStrategy_iff[THEN conjunct2, rule_format])
  with h show ?thesis by simp
qed

text \<open>
  Claim C2. \<open>validateBlock\<close> tests \<^verbatim>\<open>id\<close>, \<^verbatim>\<open>type\<close>, \<^verbatim>\<open>on\<close> and \<^verbatim>\<open>do\<close>
  by truthiness: a block whose \<^verbatim>\<open>id\<close> is the number 0 is rejected whatever its
  other fields are, and so is a block any of whose four fields is falsy. An action whose
  \<^verbatim>\<open>value\<close> is 0 and whose \<^verbatim>\<open>type\<close> is one of the action types is accepted by
  \<open>validateAction\<close>.
\<close>

theorem validateBlock_truthiness:
  "(getProp b ''id'' = Inr (JNum (Finite 0)) \<longrightarrow> validateBlock b = Inr False)
   \<and> (f \<in> {''id'', ''type'', ''on'', ''do''} \<and> getProp b f = Inr v \<and> \<not> truthy v
        \<longrightarrow> validateBlock b = Inr False)
   \<and> (getProp a ''type'' = Inr (JStr t) \<and> t \<in> set validActionTypes \<and>
      getProp a ''value'' = Inr (JNum (Finite 0)) \<longrightarrow> validateAction a = Inr True)"
proof (intro conjI impI)
  assume "getProp b ''id'' = Inr (JNum (Finite 0))"
  then show "validateBlock b = Inr False"
    by (simp add: validateBlock_def)
next
  assume h: "f \<in> {''id'', ''type'', ''on'', ''do''} \<and> getProp b f = Inr v \<and> \<not> truthy v"
  show "validateBlock b = Inr False"
  proof (cases b rule: getProp_cases)
    case (nullish c)
    with h show ?thesis by simp
  next
    case (plain g)
    with h have "\<not> truthy (g ''id'') \<or> \<not> truthy (g ''type'') \<or> \<not> truthy (g ''on'')
        \<or> \<not> truthy (g ''do'')"
      by auto
    then show ?thesis
      by (auto simp: validateBlock_def plain)
  qed
next
  assume h: "getProp a ''type'' = Inr (JStr t) \<and> t \<in> set validActionTypes \<and>
      getProp a ''value'' = Inr (JNum (Finite 0))"
  then have "t \<noteq> []" by (simp add: validActionTypes_truthy)
  with h show "validateAction a = Inr True"
    by (simp add: validateAction_def)
qed

text \<open>
  The block \<^verbatim>\<open>{id: 0, type: "bets", on: c, do: a}\<close> with a valid condition \<open>c\<close> and
  the action \<^verbatim>\<open>{type: "stop", value: 0}\<close> is rejected, the action alone is accepted,
  and the same block with \<^verbatim>\<open>id: 1\<close> is accepted.
\<close>

theorem validateBlock_truthiness_witness:
  "validateBlock (blockWithId (JNum (Finite 0))) = Inr False
   \<and> validateAction actionZero = Inr True
   \<and> validateBlock (blockWithId (JNum (Finite 1))) = Inr True"
proof -
  have h1: "getProp (blockWithId (JNum (Finite 0))) ''id'' = Inr (JNum (Finite 0))"
    by (simp add: blockWithId_def)
  have h2: "''id'' \<in> {''id'', ''type'', ''on'', ''do''} \<and>
      getProp (blockWithId (JNum (Finite 0))) ''id'' = Inr (JNum (Finite 0)) \<and>
      \<not> truthy (JNum (Finite 0))"
    by (simp add: blockWithId_def)
  have h3: "getProp actionZero ''type'' = Inr (JStr ''stop'') \<and>
      ''stop'' \<in> set validActionTypes \<and>
      getProp actionZero ''value'' = Inr (JNum (Finite 0))"
    by (simp add: actionZero_def validActionTypes_def)
  note t = validateBlock_truthiness[of "blockWithId (JNum (Finite 0))" "''id''"
      "JNum (Finite 0)" actionZero "''stop''"]
  have c1: "validateBlock (blockWithId (JNum (Finite 0))) = Inr False"
    using h1 h2 t by blast
  have a: "validateAction actionZero = Inr True"
    using h3 t by blast
  have c: "validateCondition conditionOk = Inr True"
    by (simp add: validateCondition_def conditionOk_def validConditionTypes_def
        validBetTypes_def validProfitTypes_def)
  have tr: "truthy actionZero" "truthy conditionOk"
    by (simp_all add: actionZero_def conditionOk_def)
  have c3: "validateBlock (blockWithId (JNum (Finite 1))) = Inr True"
    by (simp add: validateBlock_def blockWithId_def a c tr)
  from c1 a c3 show ?thesis by simp
qed

text \<open>
  Claim C3. \<open>validateAction a\<close> returns \<^verbatim>\<open>true\<close> exactly when \<^verbatim>\<open>a.type\<close> is one of
  the 14 action type strings and \<^verbatim>\<open>a.value\<close> is a number: any number, 0 included,
  and not \<^verbatim>\<open>undefined\<close>.
\<close>

theorem validateAction_iff:
  "(validateAction a = Inr True \<longleftrightarrow>
     (\<exists>t n. getProp a ''type'' = Inr (JStr t) \<and> t \<in> set validActionTypes \<and>
            getProp a ''value'' = Inr (JNum n)))
   \<and> length validActionTypes = 14 \<and> distinct validActionTypes"
proof (intro conjI)
  show "validateAction a = Inr True \<longleftrightarrow>
     (\<exists>t n. getProp a ''type'' = Inr (JStr t) \<and> t \<in> set validActionTypes \<and>
            getProp a ''value'' = Inr (JNum n))"
  proof (cases a rule: getProp_cases)
    case (nullish b)
    then show ?thesis by (simp add: validateAction_def)
  next
    case (plain g)
    have "typeof (g ''value'') = TNumber \<longleftrightarrow> (\<exists>n. g ''value'' = JNum n)"
      by (cases "g ''value''") simp_all
    then show ?thesis
      using validActionTypes_truthy
      by (auto simp: validateAction_def plain array_includes_iff)
  qed
  show "length validActionTypes = 14" by (simp add: validActionTypes_def)
  show "distinct validActionTypes" by (simp add: validActionTypes_def)
qed

text \<open>
  \<^verbatim>\<open>{type: "stop", value: 0}\<close> is accepted; \<^verbatim>\<open>{type: "stop"}\<close>, whose value is
  \<^verbatim>\<open>undefined\<close>, is not.
\<close>

theorem validateAction_iff_witness:
  "validateAction actionZero = Inr True \<and> validateAction actionNoValue \<noteq> Inr True"
proof -
  have "\<exists>t n. getProp actionZero ''type'' = Inr (JStr t) \<and> t \<in> set validActionTypes \<and>
      getProp actionZero ''value'' = Inr (JNum n)"
    by (simp add: actionZero_def validActionTypes_def)
  then have yes: "validateAction actionZero = Inr True"
    by (rule validateAction_iff[THEN conjunct1, THEN iffD2])
  have "\<not> (\<exists>t n. getProp actionNoValue ''type'' = Inr (JStr t) \<and> t \<in> set validActionTypes \<and>
      getProp actionNoValue ''value'' = Inr (JNum n))"
    by (simp add: actionNoValue_def)
  then have no: "validateAction actionNoValue \<noteq> Inr True"
    using validateAction_iff[of actionNoValue] by blast
  from yes no show ?thesis by simp
qed

text \<open>
  Claim C8 says that \<open>validateStrategy\<close> never throws. It does on
  \<^verbatim>\<open>{label: "x", isDefault: true, blocks: [null]}\<close>: \<open>validateBlock\<close> reads
  \<^verbatim>\<open>block.id\<close> of the \<^verbatim>\<open>null\<close> element with no test of the element before it,
  while \<open>validateStrategy\<close> tests its own argument first.
\<close>

theorem validateStrategy_null_block_throws:
  "validateStrategy strategyNullBlock = Inl (TypeError ''null'' ''id'')
   \<and> validateBlock JNull = Inl (TypeError ''null'' ''id'')
   \<and> validateStrategy JNull = Inr False"
  by (simp add: validateStrategy_def validateBlock_def strategyNullBlock_def)

theorem validateStrategy_null_block_throws_witness:
  "\<not> (\<exists>b. validateStrategy strategyNullBlock = Inr b)"
  using validateStrategy_null_block_throws by simp

section \<open>The manager\<close>

text \<open>
  Claim C4. When the text stored under the key parses to an array whose elements all pass
  \<open>validateStrategy\<close>, \<open>exportStrategies\<close> with the format \<^verbatim>\<open>"original"\<close> (given or
  by default) returns the stored text itself and downloads it; \<^verbatim>\<open>JSON.stringify\<close>
  has no part in the result. (\<^verbatim>\<open>JSON.parse\<close> throws on the empty text, which is the
  second premise.)
\<close>

theorem exportStrategies_original_passthrough:
  assumes "getItem w STRATEGY_KEY = Some text"
    and "isl (parse eng [])"
    and "parse eng text = Inr (JArr xs)"
    and "\<forall>s\<in>set xs. validateStrategy s = Inr True"
    and "fmt = None \<or> fmt = Some ''original''"
  shows "exportStrategies eng fmt w =
    (Inr (JStr text), download w (''strategies_original_'' @ isoDate eng @ ''.json'') text)"
proof -
  from assms(2,3) have ne: "text \<noteq> []" by auto
  from assms(5) have f: "formatOrDefault fmt = ''original''"
    by (auto simp: formatOrDefault_def)
  from assms(4) have v: "allStrategiesValid (JArr xs) = Inr True"
    by (simp add: allStrategiesValid_True)
  show ?thesis
    by (simp add: exportStrategies_def assms(1,3) ne f v)
qed

text \<open>
  The stored text has spaces that the serializer would not write; the export returns it
  with the spaces.
\<close>

theorem exportStrategies_original_passthrough_witness:
  "exportStrategies exampleEnv None storedWorld =
     (Inr (JStr spacedText),
      storedWorld\<lparr>downloads := [(''strategies_original_2024-05-17.json'', spacedText)]\<rparr>)
   \<and> stringify exampleEnv (JArr [strategyX]) \<noteq> spacedText"
proof -
  have h1: "getItem storedWorld STRATEGY_KEY = Some spacedText"
    by (simp add: getItem_def storedWorld_def STRATEGY_KEY_def)
  have h2: "isl (parse exampleEnv [])"
    by (simp add: exampleEnv_def compactText_def spacedText_def nullBlockText_def)
  have h3: "parse exampleEnv spacedText = Inr (JArr [strategyX])"
    by (simp add: exampleEnv_def)
  have h4: "\<forall>s\<in>set [strategyX]. validateStrategy s = Inr True"
    by (simp add: validateStrategy_strategyX)
  have h5: "None = None \<or> None = Some ''original''"
    by simp
  have d: "download storedWorld (''strategies_original_'' @ isoDate exampleEnv @ ''.json'')
      spacedText =
      storedWorld\<lparr>downloads := [(''strategies_original_2024-05-17.json'', spacedText)]\<rparr>"
    by (simp add: download_def storedWorld_def exampleEnv_def)
  have s: "stringify exampleEnv (JArr [strategyX]) \<noteq> spacedText"
    by (simp add: exampleEnv_def texts_distinct)
  from exportStrategies_original_passthrough[OF h1 h2 h3 h4 h5] d s show ?thesis
    by simp
qed

text \<open>
  Claim C5. When the file's text parses to an array whose elements all pass
  \<open>validateStrategy\<close> and the format is \<^verbatim>\<open>"original"\<close>, \<open>importStrategies\<close> stores
  the serialization of that array under the key, changes nothing else, and resolves with
  the array.
\<close>

theorem importStrategies_persists:
  assumes "files = Readable content # rest"
    and "parse eng content = Inr (JArr xs)"
    and "\<forall>s\<in>set xs. validateStrategy s = Inr True"
    and "fmt = None \<or> fmt = Some ''original''"
  shows "importStrategies eng files fmt w =
    (Inr (JArr xs), w\<lparr>storage := (storage w)(STRATEGY_KEY \<mapsto> stringify eng (JArr xs))\<rparr>)"
proof -
  from assms(4) have f: "formatOrDefault fmt = ''original''"
    by (auto simp: formatOrDefault_def)
  from assms(3) have v: "allStrategiesValid (JArr xs) = Inr True"
    by (simp add: allStrategiesValid_True)
  show ?thesis
    by (simp add: importStrategies_def assms(1,2) f v setItem_def)
qed

theorem importStrategies_persists_witness:
  "importStrategies exampleEnv [Readable spacedText] None emptyWorld =
     (Inr (JArr [strategyX]),
      emptyWorld\<lparr>storage := (storage emptyWorld)(''strategies_saved'' \<mapsto> compactText)\<rparr>)"
proof -
  have h1: "[Readable spacedText] = Readable spacedText # []"
    by simp
  have h2: "parse exampleEnv spacedText = Inr (JArr [strategyX])"
    by (simp add: exampleEnv_def)
  have h3: "\<forall>s\<in>set [strategyX]. validateStrategy s = Inr True"
    by (simp add: validateStrategy_strategyX)
  have h4: "None = None \<or> None = Some ''original''"
    by simp
  have s: "stringify exampleEnv (JArr [strategyX]) = compactText"
    by (simp add: exampleEnv_def)
  from importStrategies_persists[OF h1 h2 h3 h4, of emptyWorld] s show ?thesis
    by (simp add: STRATEGY_KEY_def)
qed

text \<open>
  Claim C6. Once the file has been read, a failure of \<^verbatim>\<open>JSON.parse\<close>, of the decoding
  from shorthand, or of the validation (an error thrown while validating, or a content
  that is not an array of valid strategies) rejects the promise with an error whose
  message is \<^verbatim>\<open>"Invalid strategy file: "\<close> followed by the message of the failure, and
  leaves the store, and the rest of the world, as it was. Whenever the promise is
  rejected nothing has been written.
\<close>

theorem importStrategies_failure:
  assumes "files = Readable content # rest"
  shows "(parse eng content = Inl e \<longrightarrow>
            importStrategies eng files fmt w =
              (Inl (Error (''Invalid strategy file: '' @ message eng e)), w))
    \<and> (parse eng content = Inr v \<and> formatOrDefault fmt = ''shorthand'' \<and>
        fromShorthand eng v = Inl e \<longrightarrow>
            importStrategies eng files fmt w =
              (Inl (Error (''Invalid strategy file: '' @ message eng e)), w))
    \<and> (parse eng content = Inr v \<and>
        (if formatOrDefault fmt = ''shorthand'' then fromShorthand eng v else Inr v) = Inr pc \<and>
        allStrategiesValid pc = Inl e \<longrightarrow>
            importStrategies eng files fmt w =
              (Inl (Error (''Invalid strategy file: '' @ message eng e)), w))
    \<and> (parse eng content = Inr v \<and>
        (if formatOrDefault fmt = ''shorthand'' then fromShorthand eng v else Inr v) = Inr pc \<and>
        allStrategiesValid pc = Inr False \<longrightarrow>
            importStrategies eng files fmt w =
              (Inl (Error (''Invalid strategy file: '' @ ''Invalid strategy format'')), w))
    \<and> (isl (fst (importStrategies eng files fmt w)) \<longrightarrow>
          snd (importStrategies eng files fmt w) = w)"
proof (intro conjI impI)
  show "isl (fst (importStrategies eng files fmt w)) \<Longrightarrow>
          snd (importStrategies eng files fmt w) = w"
    by (auto simp: importStrategies_def Let_def split: list.splits inputFile.splits sum.splits)
qed (auto simp: importStrategies_def assms split: if_splits)

text \<open>
  A text that is not JSON; the text \<^verbatim>\<open>7\<close> read as shorthand, which the codec refuses;
  a strategy whose blocks are \<^verbatim>\<open>[null]\<close>, on which the validation throws; and
  \<^verbatim>\<open>{}\<close>, which is not an array.
\<close>

theorem importStrategies_failure_witness:
  "importStrategies exampleEnv [Readable ''{''] None storedWorld =
     (Inl (Error ''Invalid strategy file: Unexpected end of JSON input''), storedWorld)
   \<and> importStrategies exampleEnv [Readable ''7''] (Some ''shorthand'') storedWorld =
     (Inl (Error ''Invalid strategy file: Not a shorthand list''), storedWorld)
   \<and> importStrategies exampleEnv [Readable nullBlockText] None storedWorld =
     (Inl (Error ''Invalid strategy file: Cannot read properties of null (reading id)''),
      storedWorld)
   \<and> importStrategies exampleEnv [Readable ''{}''] None storedWorld =
     (Inl (Error ''Invalid strategy file: Invalid strategy format''), storedWorld)"
proof -
  have p1: "parse exampleEnv ''{'' = Inl (SyntaxError ''Unexpected end of JSON input'')"
    by (simp add: exampleEnv_def texts_distinct)
  have c1: "importStrategies exampleEnv [Readable ''{''] None storedWorld =
     (Inl (Error ''Invalid strategy file: Unexpected end of JSON input''), storedWorld)"
    using p1
      importStrategies_failure[where files = "[Readable ''{'']" and content = "''{''"
        and rest = "[]" and eng = exampleEnv and fmt = None and w = storedWorld
        and e = "SyntaxError ''Unexpected end of JSON input''"]
    by simp
  have p2: "parse exampleEnv ''7'' = Inr (JNum (Finite 7)) \<and>
      formatOrDefault (Some ''shorthand'') = ''shorthand'' \<and>
      fromShorthand exampleEnv (JNum (Finite 7)) = Inl (Error ''Not a shorthand list'')"
    by (simp add: exampleEnv_def texts_distinct formatOrDefault_def)
  have c2: "importStrategies exampleEnv [Readable ''7''] (Some ''shorthand'') storedWorld =
     (Inl (Error ''Invalid strategy file: Not a shorthand list''), storedWorld)"
    using p2
      importStrategies_failure[where files = "[Readable ''7'']" and content = "''7''"
        and rest = "[]" and eng = exampleEnv and fmt = "Some ''shorthand''"
        and w = storedWorld and v = "JNum (Finite 7)"
        and e = "Error ''Not a shorthand list''"]
    by simp
  have p3: "parse exampleEnv nullBlockText = Inr (JArr [strategyNullBlock]) \<and>
      (if formatOrDefault None = ''shorthand''
       then fromShorthand exampleEnv (JArr [strategyNullBlock])
       else Inr (JArr [strategyNullBlock])) = Inr (JArr [strategyNullBlock]) \<and>
      allStrategiesValid (JArr [strategyNullBlock]) = Inl (TypeError ''null'' ''id'')"
    by (simp add: exampleEnv_def texts_distinct formatOrDefault_def allStrategiesValid_def
        validateStrategy_strategyNullBlock)
  have m3: "message exampleEnv (TypeError ''null'' ''id'') =
      ''Cannot read properties of null (reading id)''"
    by (simp add: exampleEnv_def)
  have c3: "importStrategies exampleEnv [Readable nullBlockText] None storedWorld =
     (Inl (Error ''Invalid strategy file: Cannot read properties of null (reading id)''),
      storedWorld)"
    using p3 m3
      importStrategies_failure[where files = "[Readable nullBlockText]"
        and content = nullBlockText and rest = "[]" and eng = exampleEnv and fmt = None
        and w = storedWorld and v = "JArr [strategyNullBlock]"
        and pc = "JArr [strategyNullBlock]" and e = "TypeError ''null'' ''id''"]
    by simp
  have p4: "parse exampleEnv ''{}'' = Inr (JObj []) \<and>
      (if formatOrDefault None = ''shorthand'' then fromShorthand exampleEnv (JObj [])
       else Inr (JObj [])) = Inr (JObj []) \<and>
      allStrategiesValid (JObj []) = Inr False"
    by (simp add: exampleEnv_def texts_distinct formatOrDefault_def allStrategiesValid_def)
  have c4: "importStrategies exampleEnv [Readable ''{}''] None storedWorld =
     (Inl (Error ''Invalid strategy file: Invalid strategy format''), storedWorld)"
    using p4
      importStrategies_failure[where files = "[Readable ''{}'']" and content = "''{}''"
        and rest = "[]" and eng = exampleEnv and fmt = None and w = storedWorld
        and v = "JObj []" and pc = "JObj []"]
    by simp
  from c1 c2 c3 c4 show ?thesis by simp
qed

text \<open>
  Claim C7. When the store has nothing under the key, \<open>exportStrategies\<close> and
  \<open>getStrategies\<close> both return \<^verbatim>\<open>null\<close>, throw nothing, and leave the world as it
  was: no download is triggered.
\<close>

theorem absent_store_null:
  assumes "storage w STRATEGY_KEY = None"
  shows "exportStrategies eng fmt w = (Inr JNull, w) \<and> getStrategies eng fmt w = (Inr JNull, w)"
  using assms by (simp add: exportStrategies_def getStrategies_def getItem_def)

theorem absent_store_null_witness:
  "exportStrategies exampleEnv None emptyWorld = (Inr JNull, emptyWorld)
   \<and> getStrategies exampleEnv None emptyWorld = (Inr JNull, emptyWorld)
   \<and> downloads emptyWorld = []"
proof -
  have h: "storage emptyWorld STRATEGY_KEY = None"
    by (simp add: emptyWorld_def)
  have d: "downloads emptyWorld = []"
    by (simp add: emptyWorld_def)
  from absent_store_null[OF h, of exampleEnv None] d show ?thesis by simp
qed

text \<open>
  Claim C9. The key is \<^verbatim>\<open>'strategies_saved'\<close>. \<open>getStrategies\<close> changes nothing
  at all. \<open>exportStrategies\<close> leaves the whole store as it was and only adds to the
  downloads. \<open>importStrategies\<close> leaves the downloads and every other key as they were,
  and the key too when its promise is rejected; when it resolves, what it writes under
  the key is the serialization of the value it resolves with, which does not depend on
  the store. What \<open>getStrategies\<close> and \<open>exportStrategies\<close> return, and what
  \<open>exportStrategies\<close> downloads, depend on the store through the value under the key
  alone: in two worlds that agree on the key they are the same.
\<close>

theorem store_frame:
  "STRATEGY_KEY = ''strategies_saved''
   \<and> storage (snd (getStrategies eng fmt w)) = storage w
   \<and> storage (snd (exportStrategies eng fmt w)) = storage w
   \<and> (k \<noteq> STRATEGY_KEY \<longrightarrow> storage (snd (importStrategies eng files fmt w)) k = storage w k)
   \<and> (isl (fst (importStrategies eng files fmt w)) \<longrightarrow>
        storage (snd (importStrategies eng files fmt w)) = storage w)
   \<and> (storage w STRATEGY_KEY = storage w' STRATEGY_KEY \<longrightarrow>
        fst (getStrategies eng fmt w) = fst (getStrategies eng fmt w') \<and>
        fst (exportStrategies eng fmt w) = fst (exportStrategies eng fmt w') \<and>
        fst (importStrategies eng files fmt w) = fst (importStrategies eng files fmt w') \<and>
        (\<exists>d. snd (exportStrategies eng fmt w) = w\<lparr>downloads := downloads w @ d\<rparr> \<and>
             snd (exportStrategies eng fmt w') = w'\<lparr>downloads := downloads w' @ d\<rparr>))
   \<and> snd (getStrategies eng fmt w) = w
   \<and> fst (importStrategies eng files fmt w) = fst (importStrategies eng files fmt w')
   \<and> snd (importStrategies eng files fmt w) =
        (case fst (importStrategies eng files fmt w) of
           Inl e \<Rightarrow> w
         | Inr v \<Rightarrow> w\<lparr>storage := (storage w)(STRATEGY_KEY \<mapsto> stringify eng v)\<rparr>)"
proof -
  have key: "STRATEGY_KEY = ''strategies_saved''"
    by (simp add: STRATEGY_KEY_def)
  have get_w: "snd (getStrategies eng fmt w) = w"
    by (simp add: getStrategies_def Let_def split: option.splits)
  have exp_st: "storage (snd (exportStrategies eng fmt w)) = storage w"
    by (simp add: exportStrategies_def Let_def download_def split: option.splits sum.splits)
  have imp_k: "k \<noteq> STRATEGY_KEY \<longrightarrow>
      storage (snd (importStrategies eng files fmt w)) k = storage w k"
    by (simp add: importStrategies_def Let_def setItem_def
        split: list.splits inputFile.splits sum.splits)
  have imp_rej: "isl (fst (importStrategies eng files fmt w)) \<longrightarrow>
      storage (snd (importStrategies eng files fmt w)) = storage w"
    by (auto simp: importStrategies_def Let_def split: list.splits inputFile.splits sum.splits)
  have imp_fst: "fst (importStrategies eng files fmt w) = fst (importStrategies eng files fmt w')"
    by (simp add: importStrategies_def Let_def split: list.splits inputFile.splits sum.splits)
  have imp_snd: "snd (importStrategies eng files fmt w) =
        (case fst (importStrategies eng files fmt w) of
           Inl e \<Rightarrow> w
         | Inr v \<Rightarrow> w\<lparr>storage := (storage w)(STRATEGY_KEY \<mapsto> stringify eng v)\<rparr>)"
    by (simp add: importStrategies_def Let_def setItem_def
        split: list.splits inputFile.splits sum.splits)
  have get_fst: "fst (getStrategies eng fmt w) = fst (getStrategies eng fmt w')"
    if eq: "storage w STRATEGY_KEY = storage w' STRATEGY_KEY"
    by (simp add: getStrategies_def Let_def getItem_def eq split: option.splits)
  have exp_fst: "fst (exportStrategies eng fmt w) = fst (exportStrategies eng fmt w')"
    if eq: "storage w STRATEGY_KEY = storage w' STRATEGY_KEY"
    by (simp add: exportStrategies_def Let_def getItem_def eq split: option.splits sum.splits)
  have exp_dl: "\<exists>d. snd (exportStrategies eng fmt w) = w\<lparr>downloads := downloads w @ d\<rparr> \<and>
             snd (exportStrategies eng fmt w') = w'\<lparr>downloads := downloads w' @ d\<rparr>"
    if eq: "storage w STRATEGY_KEY = storage w' STRATEGY_KEY"
  proof (cases "storage w' STRATEGY_KEY")
    case None
    then have "snd (exportStrategies eng fmt w) = w\<lparr>downloads := downloads w @ []\<rparr> \<and>
        snd (exportStrategies eng fmt w') = w'\<lparr>downloads := downloads w' @ []\<rparr>"
      by (simp add: exportStrategies_def Let_def getItem_def eq)
    then show ?thesis by blast
  next
    case (Some stored)
    show ?thesis
    proof (cases "stored = []")
      case True
      with Some have "snd (exportStrategies eng fmt w) = w\<lparr>downloads := downloads w @ []\<rparr> \<and>
          snd (exportStrategies eng fmt w') = w'\<lparr>downloads := downloads w' @ []\<rparr>"
        by (simp add: exportStrategies_def Let_def getItem_def eq)
      then show ?thesis by blast
    next
      case False
      let ?r = "bindE (parse eng stored) (\<lambda>parsedStrategies.
                 bindE (allStrategiesValid parsedStrategies) (\<lambda>ok.
                 if \<not> ok then Inl (Error ''Invalid strategy format detected'')
                 else if formatOrDefault fmt = ''shorthand''
                   then bindE (toShorthand eng parsedStrategies) (\<lambda>sh. Inr (stringify eng sh))
                   else Inr stored))"
      show ?thesis
      proof (cases "?r")
        case (Inl e)
        with Some False
        have "snd (exportStrategies eng fmt w) = w\<lparr>downloads := downloads w @ []\<rparr> \<and>
            snd (exportStrategies eng fmt w') = w'\<lparr>downloads := downloads w' @ []\<rparr>"
          by (simp add: exportStrategies_def Let_def getItem_def eq)
        then show ?thesis by blast
      next
        case (Inr exportData)
        let ?d = "[(''strategies_'' @ formatOrDefault fmt @ ''_'' @ isoDate eng @ ''.json'',
                    exportData)]"
        from Some False Inr
        have "snd (exportStrategies eng fmt w) = w\<lparr>downloads := downloads w @ ?d\<rparr> \<and>
            snd (exportStrategies eng fmt w') = w'\<lparr>downloads := downloads w' @ ?d\<rparr>"
          by (simp add: exportStrategies_def Let_def getItem_def eq download_def)
        then show ?thesis by blast
      qed
    qed
  qed
  from get_w have get_st: "storage (snd (getStrategies eng fmt w)) = storage w"
    by simp
  from key get_st exp_st imp_k imp_rej get_fst exp_fst imp_fst exp_dl get_w imp_snd
  show ?thesis
    by blast
qed

text \<open>
  An import into a store that also holds a \<^verbatim>\<open>theme\<close> leaves the theme; a rejected
  import leaves the strategies; an export leaves both. Two worlds with the same
  strategies, different themes and different earlier downloads: the export returns the
  same text in both and adds the same download, the stored text, to each.
\<close>

theorem store_frame_witness:
  "storage (snd (importStrategies exampleEnv [Readable compactText] None storedWorld))
      ''theme'' = Some ''dark''
   \<and> storage (snd (importStrategies exampleEnv [Readable ''{''] None storedWorld))
        ''strategies_saved'' = Some spacedText
   \<and> storage (snd (exportStrategies exampleEnv None storedWorld)) ''strategies_saved''
        = Some spacedText
   \<and> storage (snd (getStrategies exampleEnv None storedWorld)) ''theme'' = Some ''dark''
   \<and> storage storedWorld ''theme'' \<noteq> storage lightWorld ''theme''
   \<and> fst (exportStrategies exampleEnv None lightWorld) = Inr (JStr spacedText)
   \<and> fst (getStrategies exampleEnv None lightWorld) = Inr (JArr [strategyX])
   \<and> downloads (snd (exportStrategies exampleEnv None lightWorld)) =
        [(''notes.txt'', ''hello''), (''strategies_original_2024-05-17.json'', spacedText)]
   \<and> snd (importStrategies exampleEnv [Readable spacedText] None lightWorld) =
        lightWorld\<lparr>storage := (storage lightWorld)(''strategies_saved'' \<mapsto> compactText)\<rparr>"
proof -
  note t = store_frame[of exampleEnv None storedWorld "''theme''" _ storedWorld]
  note u = store_frame[of exampleEnv None storedWorld "''theme''" "[Readable spacedText]"
      lightWorld]
  note v = store_frame[of exampleEnv None lightWorld "''theme''" "[Readable spacedText]"
      storedWorld]
  have k: "''theme'' \<noteq> STRATEGY_KEY"
    by (simp add: STRATEGY_KEY_def)
  have r: "isl (fst (importStrategies exampleEnv [Readable ''{''] None storedWorld))"
    by (simp add: importStrategies_def exampleEnv_def texts_distinct)
  have s: "storage storedWorld ''theme'' = Some ''dark''"
    "storage storedWorld ''strategies_saved'' = Some spacedText"
    by (simp_all add: storedWorld_def)
  have "storage (snd (importStrategies exampleEnv [Readable compactText] None storedWorld))
      ''theme'' = storage storedWorld ''theme''"
    using k t[of "[Readable compactText]"] by blast
  with s have c1:
    "storage (snd (importStrategies exampleEnv [Readable compactText] None storedWorld))
      ''theme'' = Some ''dark''"
    by simp
  have "storage (snd (importStrategies exampleEnv [Readable ''{''] None storedWorld)) =
      storage storedWorld"
    using r t[of "[Readable ''{'']"] by blast
  with s have c2: "storage (snd (importStrategies exampleEnv [Readable ''{''] None storedWorld))
        ''strategies_saved'' = Some spacedText"
    by simp
  have "storage (snd (exportStrategies exampleEnv None storedWorld)) = storage storedWorld"
    using t[of "[]"] by blast
  with s have c3:
    "storage (snd (exportStrategies exampleEnv None storedWorld)) ''strategies_saved''
        = Some spacedText"
    by simp
  have "storage (snd (getStrategies exampleEnv None storedWorld)) = storage storedWorld"
    using t[of "[]"] by blast
  with s have c4:
    "storage (snd (getStrategies exampleEnv None storedWorld)) ''theme'' = Some ''dark''"
    by simp
  have c5: "storage storedWorld ''theme'' \<noteq> storage lightWorld ''theme''"
    by (simp add: storedWorld_def lightWorld_def)
  have agree: "storage storedWorld STRATEGY_KEY = storage lightWorld STRATEGY_KEY"
    by (simp add: storedWorld_def lightWorld_def STRATEGY_KEY_def)
  have e: "exportStrategies exampleEnv None storedWorld =
     (Inr (JStr spacedText),
      storedWorld\<lparr>downloads := [(''strategies_original_2024-05-17.json'', spacedText)]\<rparr>)"
    using exportStrategies_storedWorld
    by (simp add: exportStrategies_def formatOrDefault_def)
  have g: "fst (getStrategies exampleEnv None storedWorld) = Inr (JArr [strategyX])"
    by (simp add: getStrategies_def formatOrDefault_def getItem_def STRATEGY_KEY_def
        storedWorld_def exampleEnv_def texts_distinct allStrategiesValid_def
        validateStrategy_strategyX)
  have "fst (exportStrategies exampleEnv None storedWorld) =
      fst (exportStrategies exampleEnv None lightWorld)"
    using agree u by blast
  with e have c6: "fst (exportStrategies exampleEnv None lightWorld) = Inr (JStr spacedText)"
    by simp
  have "fst (getStrategies exampleEnv None storedWorld) =
      fst (getStrategies exampleEnv None lightWorld)"
    using agree u by blast
  with g have c7: "fst (getStrategies exampleEnv None lightWorld) = Inr (JArr [strategyX])"
    by simp
  from agree u obtain d where
    d1: "snd (exportStrategies exampleEnv None storedWorld) =
          storedWorld\<lparr>downloads := downloads storedWorld @ d\<rparr>" and
    d2: "snd (exportStrategies exampleEnv None lightWorld) =
          lightWorld\<lparr>downloads := downloads lightWorld @ d\<rparr>"
    by blast
  from d1 e have "d = [(''strategies_original_2024-05-17.json'', spacedText)]"
    by (simp add: storedWorld_def)
  with d2 have c8: "downloads (snd (exportStrategies exampleEnv None lightWorld)) =
        [(''notes.txt'', ''hello''), (''strategies_original_2024-05-17.json'', spacedText)]"
    by (simp add: lightWorld_def)
  have i: "fst (importStrategies exampleEnv [Readable spacedText] None lightWorld) =
      Inr (JArr [strategyX])"
    by (simp add: importStrategies_def formatOrDefault_def exampleEnv_def
        allStrategiesValid_def validateStrategy_strategyX)
  have st: "stringify exampleEnv (JArr [strategyX]) = compactText"
    by (simp add: exampleEnv_def)
  have "snd (importStrategies exampleEnv [Readable spacedText] None lightWorld) =
      (case fst (importStrategies exampleEnv [Readable spacedText] None lightWorld) of
         Inl e \<Rightarrow> lightWorld
       | Inr x \<Rightarrow>
           lightWorld\<lparr>storage := (storage lightWorld)(STRATEGY_KEY \<mapsto> stringify exampleEnv x)\<rparr>)"
    using v by blast
  with i st
  have c9: "snd (importStrategies exampleEnv [Readable spacedText] None lightWorld) =
        lightWorld\<lparr>storage := (storage lightWorld)(''strategies_saved'' \<mapsto> compactText)\<rparr>"
    by (simp add: STRATEGY_KEY_def)
  from c1 c2 c3 c4 c5 c6 c7 c8 c9 show ?thesis by simp
qed

section \<open>Loading the script\<close>

text \<open>
  Claim C10. Evaluating the file has the effect of one call of \<open>exportStrategies\<close> with
  the format \<^verbatim>\<open>"original"\<close> and no other: it throws what that call throws, leaves the
  world that call leaves, never writes to the store, and triggers at most one download,
  of the stored text under the name \<^verbatim>\<open>strategies_original_<date>.json\<close>.
\<close>

theorem script_is_one_export:
  "script eng w =
     (map_sum id (\<lambda>v. ()) (fst (exportStrategies eng (Some ''original'') w)),
      snd (exportStrategies eng (Some ''original'') w))
   \<and> storage (snd (script eng w)) = storage w
   \<and> (downloads (snd (script eng w)) = downloads w \<or>
      (\<exists>text. storage w STRATEGY_KEY = Some text \<and>
         downloads (snd (script eng w)) =
           downloads w @ [(''strategies_original_'' @ isoDate eng @ ''.json'', text)]))"
  by (auto simp: script_def exportStrategies_def formatOrDefault_def Let_def download_def
      getItem_def bindE_def split: option.splits sum.splits prod.splits if_splits)

text \<open>
  Loading the script on a store that holds one valid strategy downloads the stored text;
  on an empty store it does nothing.
\<close>

theorem script_is_one_export_witness:
  "script exampleEnv storedWorld =
     (Inr (),
      storedWorld\<lparr>downloads := [(''strategies_original_2024-05-17.json'', spacedText)]\<rparr>)
   \<and> script exampleEnv emptyWorld = (Inr (), emptyWorld)"
proof -
  have e: "exportStrategies exampleEnv (Some ''original'') emptyWorld = (Inr JNull, emptyWorld)"
    by (simp add: exportStrategies_def getItem_def emptyWorld_def)
  from script_is_one_export[of exampleEnv storedWorld]
    script_is_one_export[of exampleEnv emptyWorld]
    exportStrategies_storedWorld e
  show ?thesis by simp
qed

end
